theory Spec2Isabelle
  imports Main
begin

section \<open>JavaScript values met by \<^verbatim>\<open>src/services/api.js\<close>\<close>

text \<open>
  Response bodies are JSON values. A property list \<open>JObj\<close> holds the own properties of an
  object in enumeration order, with distinct keys. Numbers are the integral ones.
  A value of type \<open>json option\<close> is a JavaScript value that may be \<^verbatim>\<open>undefined\<close> (\<open>None\<close>).
\<close>

datatype json =
    JNull
  | JBool bool
  | JNum int
  | JStr string
  | JArr "json list"
  | JObj "(string \<times> json) list"

text \<open>Truthiness, as \<^verbatim>\<open>if (v)\<close>, \<^verbatim>\<open>!v\<close> and \<^verbatim>\<open>a || b\<close> test it.\<close>

fun truthy :: "json option \<Rightarrow> bool" where
  "truthy None = False"
| "truthy (Some JNull) = False"
| "truthy (Some (JBool b)) = b"
| "truthy (Some (JNum n)) = (n \<noteq> 0)"
| "truthy (Some (JStr s)) = (s \<noteq> [])"
| "truthy (Some (JArr _)) = True"
| "truthy (Some (JObj _)) = True"

text \<open>
  \<^verbatim>\<open>localStorage.getItem\<close> returns \<^verbatim>\<open>null\<close> or a string; both \<^verbatim>\<open>null\<close> and the empty
  string are falsy.
\<close>

fun truthy_item :: "string option \<Rightarrow> bool" where
  "truthy_item None = False"
| "truthy_item (Some s) = (s \<noteq> [])"

text \<open>Optional property access \<^verbatim>\<open>v?.k\<close> for a key that no array or string has.\<close>

fun get_prop :: "json option \<Rightarrow> string \<Rightarrow> json option" where
  "get_prop (Some (JObj kvs)) k = map_of kvs k"
| "get_prop _ k = None"

text \<open>\<^verbatim>\<open>typeof v === 'object'\<close> (true of \<^verbatim>\<open>null\<close>, of arrays and of objects).\<close>

fun typeof_object :: "json option \<Rightarrow> bool" where
  "typeof_object (Some JNull) = True"
| "typeof_object (Some (JArr _)) = True"
| "typeof_object (Some (JObj _)) = True"
| "typeof_object _ = False"

subsection \<open>Conversion to strings\<close>

definition digit :: "nat \<Rightarrow> char" where
  "digit d = ''0123456789abcdef'' ! d"

fun show_nat :: "nat \<Rightarrow> string" where
  "show_nat n = (if n < 10 then [digit n] else show_nat (n div 10) @ [digit (n mod 10)])"

declare show_nat.simps [simp del]

definition show_int :: "int \<Rightarrow> string" where
  "show_int i = (if i < 0 then CHR ''-'' # show_nat (nat (- i)) else show_nat (nat i))"

fun join :: "string \<Rightarrow> string list \<Rightarrow> string" where
  "join sep [] = []"
| "join sep [x] = x"
| "join sep (x # y # ys) = x @ sep @ join sep (y # ys)"

text \<open>
  \<^verbatim>\<open>String(v)\<close>, which a template literal, \<^verbatim>\<open>'Bearer ' + v\<close>, \<^verbatim>\<open>new Error(v)\<close> and
  \<^verbatim>\<open>localStorage.setItem(k, v)\<close> all apply to a value of these kinds. An array is joined
  with commas, \<^verbatim>\<open>null\<close> elements giving the empty string.
\<close>

fun String_json :: "json \<Rightarrow> string" where
  "String_json JNull = ''null''"
| "String_json (JBool b) = (if b then ''true'' else ''false'')"
| "String_json (JNum n) = show_int n"
| "String_json (JStr s) = s"
| "String_json (JArr xs) =
     join '','' (map (\<lambda>x. if x = JNull then [] else String_json x) xs)"
| "String_json (JObj kvs) = ''[object Object]''"

fun String_js :: "json option \<Rightarrow> string" where
  "String_js None = ''undefined''"
| "String_js (Some v) = String_json v"

text \<open>\<^verbatim>\<open>JSON.stringify\<close>: strings are quoted, with the escapes of the standard.\<close>

definition escape_char :: "char \<Rightarrow> string" where
  "escape_char c =
     (if c = CHR ''\"'' then [CHR 0x5C, CHR ''\"'']
      else if c = CHR 0x5C then [CHR 0x5C, CHR 0x5C]
      else if c = CHR 0x08 then [CHR 0x5C, CHR ''b'']
      else if c = CHR 0x09 then [CHR 0x5C, CHR ''t'']
      else if c = CHR 0x0A then [CHR 0x5C, CHR ''n'']
      else if c = CHR 0x0C then [CHR 0x5C, CHR ''f'']
      else if c = CHR 0x0D then [CHR 0x5C, CHR ''r'']
      else if of_char c < (32::nat)
        then [CHR 0x5C, CHR ''u'', CHR ''0'', CHR ''0'',
              digit (of_char c div 16), digit (of_char c mod 16)]
      else [c])"

definition quote :: "string \<Rightarrow> string" where
  "quote s = CHR ''\"'' # concat (map escape_char s) @ [CHR ''\"'']"

fun JSON_stringify :: "json \<Rightarrow> string" where
  "JSON_stringify JNull = ''null''"
| "JSON_stringify (JBool b) = (if b then ''true'' else ''false'')"
| "JSON_stringify (JNum n) = show_int n"
| "JSON_stringify (JStr s) = quote s"
| "JSON_stringify (JArr xs) = ''['' @ join '','' (map JSON_stringify xs) @ '']''"
| "JSON_stringify (JObj kvs) =
     ''{'' @ join '','' (map (\<lambda>kv. quote (fst kv) @ '':'' @ JSON_stringify (snd kv)) kvs) @ ''}''"

definition js_or :: "json option \<Rightarrow> json option \<Rightarrow> json option" where
  \<comment> \<open>\<^verbatim>\<open>a || b\<close>\<close>
  "js_or a b = (if truthy a then a else b)"

definition endsWith :: "string \<Rightarrow> string \<Rightarrow> bool" where
  \<comment> \<open>\<^verbatim>\<open>s.endsWith(t)\<close>\<close>
  "endsWith s t \<longleftrightarrow> length t \<le> length s \<and> drop (length s - length t) s = t"

section \<open>Requests, responses and errors\<close>

text \<open>
  A request configuration as Axios hands it to the interceptors: \<open>retry\<close> is the
  \<^verbatim>\<open>_retry\<close> property, \<open>False\<close> while it is not set. The other fields of a configuration,
  which this module never reads or writes, are represented by \<open>payload\<close>.
\<close>

record axios_config =
  url :: string
  headers :: "string \<rightharpoonup> string"
  retry :: bool
  payload :: "json option"

record axios_response =
  status :: nat
  data :: "json option"

text \<open>
  The rejection of a request that was sent through \<^verbatim>\<open>apiClient\<close>: it carries the
  configuration of that request, the response when the server replied, and the
  \<^verbatim>\<open>request\<close> property (here: whether it is set).
\<close>

record axios_error =
  config :: axios_config
  response :: "axios_response option"
  request :: bool

text \<open>
  The values that are thrown or that reject a promise: an error of Axios, which
  carries the configuration of its request; a \<^verbatim>\<open>TypeError\<close> of the language with its
  message; or an object built by \<^verbatim>\<open>new Error(message)\<close>, with the \<^verbatim>\<open>data\<close> and \<^verbatim>\<open>status\<close>
  properties that the module adds to it. The last two have no \<^verbatim>\<open>config\<close>, \<^verbatim>\<open>response\<close> or
  \<^verbatim>\<open>request\<close> property.
\<close>

datatype js_error =
    AxiosError axios_error
  | TypeError string
  | Error string "json option" "nat option"

text \<open>
  The message of the \<^verbatim>\<open>TypeError\<close> that reading property \<open>p\<close> of \<^verbatim>\<open>undefined\<close> or of
  \<^verbatim>\<open>null\<close> throws, as V8 words it.
\<close>

definition cannot_read :: "string \<Rightarrow> string \<Rightarrow> string" where
  "cannot_read what p =
     ''Cannot read properties of '' @ what @ '' (reading '' @ [CHR 0x27] @ p @ [CHR 0x27] @ '')''"

fun error_response :: "js_error \<Rightarrow> axios_response option" where
  "error_response (AxiosError e) = response e"
| "error_response _ = None"

fun error_config :: "js_error \<Rightarrow> axios_config option" where
  "error_config (AxiosError e) = Some (config e)"
| "error_config _ = None"

fun error_request :: "js_error \<Rightarrow> bool" where
  "error_request (AxiosError e) = request e"
| "error_request _ = False"

section \<open>The request interceptor\<close>

text \<open>
  The interceptor is handed a reference to a configuration object and assigns to
  \<^verbatim>\<open>config.headers['Authorization']\<close> of that object. To tell the object it is given from
  the object it returns, and a write into the former from a copy, configurations live
  in a heap: a reference is an address, and the heap gives the object at each address
  (its headers with it). The interceptor returns a reference and the heap it leaves.
\<close>

type_synonym ref = nat

type_synonym heap = "ref \<Rightarrow> axios_config"

definition request_interceptor :: "(string \<rightharpoonup> string) \<Rightarrow> ref \<Rightarrow> heap \<Rightarrow> ref \<times> heap" where
  "request_interceptor store cfg h =
     (case store ''accessToken'' of
        None \<Rightarrow> (cfg, h)
      | Some token \<Rightarrow>
          if token \<noteq> []
          then (cfg,
            h(cfg := (h cfg)\<lparr>headers :=
                (headers (h cfg))(''Authorization'' \<mapsto> ''Bearer '' @ token)\<rparr>))
          else (cfg, h))"

text \<open>The heap in which every address holds \<open>r\<close>.\<close>

definition holding :: "axios_config \<Rightarrow> heap" where
  "holding r = (\<lambda>a. r)"

section \<open>The response interceptor\<close>

definition REFRESH_TOKEN_ENDPOINT :: string where
  "REFRESH_TOKEN_ENDPOINT = ''/api/token/refresh/''"

text \<open>How a queued promise is settled: \<^verbatim>\<open>prom.resolve(token)\<close> or \<^verbatim>\<open>prom.reject(error)\<close>.\<close>

datatype settlement = Resolve "json option" | Reject js_error

text \<open>
  What the module does to the world: the refresh exchange
  \<^verbatim>\<open>axios.post(..., {refresh: refreshToken})\<close>, a call \<^verbatim>\<open>apiClient(originalRequest)\<close>, the
  rejection of the promise that stands for a request towards its caller, the
  assignment to \<^verbatim>\<open>window.location.href\<close>, and the rejection of the handler's promise
  with what the handler threw before it knew a request (the caller of the failed
  request receives it). Within one turn of the event loop they are
  listed as they are caused: first those of the statements of the running block, then
  the rejection of the promise that the handler itself returned (after \<^verbatim>\<open>finally\<close>), then
  those of the reactions of the queued promises, in the order of the queue.
\<close>

datatype effect =
    Post_refresh string
  | Call_apiClient axios_config
  | Promise_reject axios_config js_error
  | Set_location string
  | Handler_throws js_error

text \<open>
  The module's variables \<open>isRefreshing\<close> and \<open>failedQueue\<close>, the browser's
  \<open>localStorage\<close>, the default headers of \<^verbatim>\<open>apiClient\<close> (those given to \<^verbatim>\<open>axios.create\<close>
  and \<^verbatim>\<open>defaults.headers.common\<close>), and the event loop: the handler
  that is suspended at \<^verbatim>\<open>await axios.post\<close> (with its \<open>originalRequest\<close>), the reactions
  of the promises settled in the running block, and the effects so far. An entry of
  \<open>failedQueue\<close> is the pair \<^verbatim>\<open>{resolve, reject}\<close> of the promise whose reaction
  replays the \<open>originalRequest\<close> it stands for.
\<close>

record client =
  isRefreshing :: bool
  failedQueue :: "axios_config list"
  localStorage :: "string \<rightharpoonup> string"
  defaults_headers :: "string \<rightharpoonup> string"
  awaiting :: "axios_config option"
  microtasks :: "(axios_config \<times> settlement) list"
  effects :: "effect list"

definition initial :: "(string \<rightharpoonup> string) \<Rightarrow> client" where
  "initial store =
     \<lparr>isRefreshing = False, failedQueue = [], localStorage = store,
      defaults_headers = [''Content-Type'' \<mapsto> ''application/json''],
      awaiting = None, microtasks = [], effects = []\<rparr>"

definition setItem :: "string \<Rightarrow> string \<Rightarrow> client \<Rightarrow> client" where
  "setItem k v c = c\<lparr>localStorage := (localStorage c)(k \<mapsto> v)\<rparr>"

definition removeItem :: "string \<Rightarrow> client \<Rightarrow> client" where
  "removeItem k c = c\<lparr>localStorage := (localStorage c)(k := None)\<rparr>"

definition emit :: "effect \<Rightarrow> client \<Rightarrow> client" where
  "emit x c = c\<lparr>effects := effects c @ [x]\<rparr>"

definition bearer :: "string \<Rightarrow> axios_config \<Rightarrow> axios_config" where
  \<comment> \<open>\<^verbatim>\<open>originalRequest.headers['Authorization'] = 'Bearer ' + token\<close>, \<open>token\<close> as a string\<close>
  "bearer token r = r\<lparr>headers := (headers r)(''Authorization'' \<mapsto> ''Bearer '' @ token)\<rparr>"

text \<open>
  \<^verbatim>\<open>processQueue(error, token = null)\<close>: an argument that is \<^verbatim>\<open>undefined\<close> takes the
  default \<^verbatim>\<open>null\<close>. An error object is truthy.
\<close>

definition processQueue :: "js_error option \<Rightarrow> json option \<Rightarrow> client \<Rightarrow> client" where
  "processQueue error token c =
     (let token = (case token of None \<Rightarrow> Some JNull | Some v \<Rightarrow> Some v)
      in c\<lparr>microtasks := microtasks c @
            map (\<lambda>prom. (prom, case error of Some e \<Rightarrow> Reject e | None \<Rightarrow> Resolve token))
              (failedQueue c),
           failedQueue := []\<rparr>)"

text \<open>
  The reaction of a queued promise, lines 65 to 69: resolved, it sets the header and
  calls \<^verbatim>\<open>apiClient(originalRequest)\<close>; rejected, it rejects its caller.
\<close>

fun reaction :: "axios_config \<times> settlement \<Rightarrow> effect" where
  "reaction (originalRequest, Resolve token) =
     Call_apiClient (bearer (String_js token) originalRequest)"
| "reaction (originalRequest, Reject err) = Promise_reject originalRequest err"

definition run_microtasks :: "client \<Rightarrow> client" where
  "run_microtasks c = c\<lparr>effects := effects c @ map reaction (microtasks c), microtasks := []\<rparr>"

text \<open>The condition of line 58.\<close>

definition intercepts :: "axios_error \<Rightarrow> bool" where
  "intercepts error \<longleftrightarrow>
     map_option status (response error) = Some 401 \<and>
     \<not> retry (config error) \<and>
     \<not> endsWith (url (config error)) REFRESH_TOKEN_ENDPOINT"

text \<open>Lines 78 to 83: no refresh token.\<close>

definition force_logout :: "axios_error \<Rightarrow> client \<Rightarrow> client" where
  "force_logout error c =
     (let c = c\<lparr>isRefreshing := False\<rparr>;
          c = removeItem ''accessToken'' c;
          c = removeItem ''refreshToken'' c;
          c = emit (Set_location ''/login'') c
      in emit (Promise_reject (config error) (AxiosError error)) c)"

text \<open>
  The handler of a rejected response, from its entry to its first \<^verbatim>\<open>return\<close> or
  \<^verbatim>\<open>await\<close>. It is handed whatever rejected the request. Lines 55 and 56 read
  \<^verbatim>\<open>error.config.url\<close> without a test, so for an error that has no \<^verbatim>\<open>config\<close> the handler
  throws a \<^verbatim>\<open>TypeError\<close> there, before it touches anything, and its promise rejects with
  that. Setting \<^verbatim>\<open>originalRequest._retry\<close> changes \<^verbatim>\<open>error.config\<close>, the same object.
\<close>

definition rejected :: "js_error \<Rightarrow> client \<Rightarrow> client" where
  "rejected error c =
     (case error of
        TypeError m \<Rightarrow> emit (Handler_throws (TypeError (cannot_read ''undefined'' ''url''))) c
      | Error m d st \<Rightarrow> emit (Handler_throws (TypeError (cannot_read ''undefined'' ''url''))) c
      | AxiosError error \<Rightarrow>
          if intercepts error then
            if isRefreshing c then c\<lparr>failedQueue := failedQueue c @ [config error]\<rparr>
            else
              let error = error\<lparr>config := (config error)\<lparr>retry := True\<rparr>\<rparr>;
                  c = c\<lparr>isRefreshing := True\<rparr>
              in (case localStorage c ''refreshToken'' of
                    None \<Rightarrow> force_logout error c
                  | Some refreshToken \<Rightarrow>
                      if refreshToken = [] then force_logout error c
                      else emit (Post_refresh refreshToken) (c\<lparr>awaiting := Some (config error)\<rparr>))
          else emit (Promise_reject (config error) (AxiosError error)) c)"

text \<open>
  How the refresh exchange settles: fulfilled with a response whose body is
  \<^verbatim>\<open>refreshResponse.data\<close>, or rejected.
\<close>

datatype exchange = Fulfilled "json option" | Failed js_error

text \<open>
  Lines 88 to 99. The result is \<open>Inl\<close> of what was thrown, or \<open>Inr\<close> when the block
  reached its \<^verbatim>\<open>return apiClient(originalRequest)\<close>. Reading \<^verbatim>\<open>.access\<close> of a body that is
  \<^verbatim>\<open>undefined\<close> or \<^verbatim>\<open>null\<close> throws a \<^verbatim>\<open>TypeError\<close>.
\<close>

definition try_block :: "axios_config \<Rightarrow> exchange \<Rightarrow> client \<Rightarrow> (js_error + unit) \<times> client" where
  "try_block originalRequest x c =
     (case x of
        Failed e \<Rightarrow> (Inl e, c)
      | Fulfilled body \<Rightarrow>
          if body = None then (Inl (TypeError (cannot_read ''undefined'' ''access'')), c)
          else if body = Some JNull then (Inl (TypeError (cannot_read ''null'' ''access'')), c)
          else
            let newAccessToken = get_prop body ''access'';
                c = setItem ''accessToken'' (String_js newAccessToken) c;
                c = c\<lparr>defaults_headers :=
                      (defaults_headers c)
                        (''Authorization'' \<mapsto> ''Bearer '' @ String_js newAccessToken)\<rparr>;
                originalRequest = bearer (String_js newAccessToken) originalRequest;
                c = processQueue None newAccessToken c
            in (Inr (), emit (Call_apiClient originalRequest) c))"

text \<open>Lines 102 to 107; the block ends in \<^verbatim>\<open>return Promise.reject(refreshError)\<close>.\<close>

definition catch_block :: "js_error \<Rightarrow> client \<Rightarrow> client" where
  "catch_block refreshError c =
     (let c = processQueue (Some refreshError) (Some JNull) c;
          c = removeItem ''accessToken'' c;
          c = removeItem ''refreshToken'' c
      in emit (Set_location ''/login'') c)"

definition finally_block :: "client \<Rightarrow> client" where
  "finally_block c = c\<lparr>isRefreshing := False\<rparr>"

text \<open>
  The rest of the handler once the exchange has settled: \<^verbatim>\<open>try\<close>, \<^verbatim>\<open>catch\<close>, then
  \<^verbatim>\<open>finally\<close>, and only then does the promise that the handler returned settle. With
  no handler suspended there is nothing to resume.
\<close>

definition resumed :: "exchange \<Rightarrow> client \<Rightarrow> client" where
  "resumed x c =
     (case awaiting c of
        None \<Rightarrow> c
      | Some originalRequest \<Rightarrow>
          (case try_block originalRequest x (c\<lparr>awaiting := None\<rparr>) of
             (Inr _, c') \<Rightarrow> finally_block c'
           | (Inl refreshError, c') \<Rightarrow>
               emit (Promise_reject originalRequest refreshError)
                 (finally_block (catch_block refreshError c'))))"

text \<open>
  One turn of the event loop: a block of the handler, then the reactions of the
  promises it settled. A turn starts when a request of \<^verbatim>\<open>apiClient\<close> is rejected with
  some error, or when the refresh exchange settles.
\<close>

datatype event = Rejection js_error | Refresh_settled exchange

fun step :: "client \<Rightarrow> event \<Rightarrow> client" where
  "step c (Rejection error) = run_microtasks (rejected error c)"
| "step c (Refresh_settled x) = run_microtasks (resumed x c)"

text \<open>The rejection of a request by an error of Axios.\<close>

abbreviation Response_error :: "axios_error \<Rightarrow> event" where
  "Response_error error \<equiv> Rejection (AxiosError error)"

definition run :: "client \<Rightarrow> event list \<Rightarrow> client" where
  "run = foldl step"

text \<open>
  What \<^verbatim>\<open>apiClient(r)\<close> puts on the wire: Axios lays the request's own headers over
  the default ones in a configuration object of its own, runs the request interceptor
  on that object and sends what the returned reference holds. This is also the
  \<open>config\<close> of the error if that request fails.
\<close>

definition apiClient :: "client \<Rightarrow> axios_config \<Rightarrow> axios_config" where
  "apiClient c r =
     (case request_interceptor (localStorage c) 0
             (holding (r\<lparr>headers := defaults_headers c ++ headers r\<rparr>)) of
        (cfg, h) \<Rightarrow> h cfg)"

section \<open>The API functions\<close>

text \<open>
  Each function is given how its call to \<^verbatim>\<open>apiClient\<close> settled (\<open>Inl\<close>: rejected) and
  returns how its own promise settles. The first three return the promise of
  \<^verbatim>\<open>apiClient\<close> itself.
\<close>

definition loginUser :: "js_error + axios_response \<Rightarrow> js_error + axios_response" where
  "loginUser settled = settled"

definition getAssignedRoutines :: "js_error + axios_response \<Rightarrow> js_error + axios_response" where
  "getAssignedRoutines settled = settled"

definition getRoutineDetails :: "js_error + axios_response \<Rightarrow> js_error + axios_response" where
  "getRoutineDetails settled = settled"

definition api_error_text :: "nat \<Rightarrow> json option" where
  \<comment> \<open>the template literal \<^verbatim>\<open>`API Error: ${error.response.status}`\<close>\<close>
  "api_error_text st = Some (JStr (''API Error: '' @ show_nat st))"

definition logSession :: "js_error + axios_response \<Rightarrow> js_error + json option" where
  "logSession settled =
     (case settled of
        Inr r \<Rightarrow> Inr (data r)
      | Inl error \<Rightarrow>
          (case error_response error of
             Some r \<Rightarrow>
               Inl (Error
                 (String_js
                   (js_or (get_prop (data r) ''detail'')
                     (js_or
                       (if truthy (data r) \<and> typeof_object (data r)
                        then Some (JStr (JSON_stringify (the (data r)))) else Some JNull)
                       (api_error_text (status r)))))
                 (data r) (Some (status r)))
           | None \<Rightarrow>
               if error_request error
               then Inl (Error ''Network Error: Could not connect to server.'' None None)
               else Inl (Error ''Request setup error.'' None None)))"

definition getLoggedSessions :: "js_error + axios_response \<Rightarrow> js_error + json option" where
  "getLoggedSessions settled =
     (case settled of
        Inr r \<Rightarrow> Inr (data r)
      | Inl error \<Rightarrow>
          (case error_response error of
             Some r \<Rightarrow>
               Inl (Error
                 (String_js
                   (js_or (get_prop (data r) ''detail'')
                     (js_or (get_prop (data r) ''message'') (api_error_text (status r)))))
                 (data r) (Some (status r)))
           | None \<Rightarrow>
               if error_request error
               then Inl (Error ''Network Error: Could not connect to server.'' None None)
               else Inl (Error ''Request setup error.'' None None)))"

section \<open>Notions used in the statements\<close>

text \<open>
  What the \<^verbatim>\<open>catch\<close> block receives as \<open>refreshError\<close>, if the \<^verbatim>\<open>try\<close> block throws, and
  the \<open>newAccessToken\<close> it computes if it does not.
\<close>

definition thrown :: "exchange \<Rightarrow> js_error option" where
  "thrown x =
     (case x of
        Failed e \<Rightarrow> Some e
      | Fulfilled body \<Rightarrow>
          if body = None then Some (TypeError (cannot_read ''undefined'' ''access''))
          else if body = Some JNull then Some (TypeError (cannot_read ''null'' ''access''))
          else None)"

definition new_token :: "exchange \<Rightarrow> string" where
  "new_token x =
     (case x of Fulfilled body \<Rightarrow> String_js (get_prop body ''access'') | Failed e \<Rightarrow> [])"

text \<open>
  The value that the queued promises are resolved with, and the string it becomes in
  their header.
\<close>

definition resolved_with :: "exchange \<Rightarrow> json option" where
  "resolved_with x =
     (case x of
        Fulfilled body \<Rightarrow>
          (case get_prop body ''access'' of None \<Rightarrow> Some JNull | Some v \<Rightarrow> Some v)
      | Failed e \<Rightarrow> Some JNull)"

definition queue_token :: "exchange \<Rightarrow> string" where
  "queue_token x = String_js (resolved_with x)"

definition settlement_of :: "exchange \<Rightarrow> settlement" where
  "settlement_of x =
     (case thrown x of None \<Rightarrow> Resolve (resolved_with x) | Some err \<Rightarrow> Reject err)"

text \<open>The error handed back to the caller of a request that is not intercepted.\<close>

definition propagated :: "axios_error \<Rightarrow> effect" where
  "propagated error = Promise_reject (config error) (AxiosError error)"

text \<open>The branch of lines 77 to 84 is taken.\<close>

definition no_refresh_token :: "axios_error \<Rightarrow> client \<Rightarrow> bool" where
  "no_refresh_token error c \<longleftrightarrow>
     intercepts error \<and> \<not> isRefreshing c \<and> \<not> truthy_item (localStorage c ''refreshToken'')"

fun is_exchange :: "effect \<Rightarrow> bool" where
  "is_exchange (Post_refresh t) = True"
| "is_exchange _ = False"

fun is_logout :: "effect \<Rightarrow> bool" where
  "is_logout (Set_location l) = True"
| "is_logout _ = False"

definition exchanges :: "client \<Rightarrow> nat" where
  "exchanges c = length (filter is_exchange (effects c))"

definition logouts :: "client \<Rightarrow> nat" where
  "logouts c = length (filter is_logout (effects c))"

text \<open>
  Between two turns of the event loop: a handler is suspended at the exchange exactly
  while \<open>isRefreshing\<close> holds, the queue is empty otherwise, and no reaction is left to run.
\<close>

definition consistent :: "client \<Rightarrow> bool" where
  "consistent c \<longleftrightarrow>
     (isRefreshing c \<longleftrightarrow> awaiting c \<noteq> None) \<and>
     (isRefreshing c \<or> failedQueue c = []) \<and>
     microtasks c = []"

subsection \<open>Concrete requests and stores\<close>

definition request_to :: "string \<Rightarrow> axios_config" where
  "request_to u = \<lparr>url = u, headers = Map.empty, retry = False, payload = None\<rparr>"

definition failure :: "nat \<Rightarrow> axios_config \<Rightarrow> axios_error" where
  "failure st r = \<lparr>config = r, response = Some \<lparr>status = st, data = None\<rparr>, request = True\<rparr>"

definition logs :: axios_config where
  "logs = request_to ''/api/solo/session-logs/''"

definition routines :: axios_config where
  "routines = request_to ''/api/solo/assigned-routines/''"

definition both_tokens :: "string \<rightharpoonup> string" where
  "both_tokens = [''accessToken'' \<mapsto> ''T1'', ''refreshToken'' \<mapsto> ''R1'']"

definition access_only :: "string \<rightharpoonup> string" where
  "access_only = [''accessToken'' \<mapsto> ''T1'']"

definition granted :: "string \<Rightarrow> exchange" where
  "granted t = Fulfilled (Some (JObj [(''access'', JStr t)]))"

definition refused :: js_error where
  "refused =
     AxiosError
       \<lparr>config = request_to ''http://127.0.0.1:8000/api/token/refresh/'',
        response = Some \<lparr>status = 401, data = Some (JObj [(''detail'', JStr ''Token is invalid or expired'')])\<rparr>,
        request = True\<rparr>"

definition bad_request :: js_error where
  "bad_request =
     AxiosError
       \<lparr>config = logs,
        response = Some \<lparr>status = 400, data = Some (JObj [(''error'', JStr ''bad'')])\<rparr>,
        request = True\<rparr>"

text \<open>
  What rejects a request whose data \<^verbatim>\<open>JSON.stringify\<close> cannot render (here, data that
  contain themselves): the \<^verbatim>\<open>TypeError\<close> is thrown while Axios prepares the request, and it
  has no \<^verbatim>\<open>config\<close>.
\<close>

definition unserialisable :: js_error where
  "unserialisable = TypeError ''Converting circular structure to JSON''"

definition empty_token :: "string \<rightharpoonup> string" where
  "empty_token = [''accessToken'' \<mapsto> []]"

definition in_flight :: client where
  "in_flight = step (initial both_tokens) (Response_error (failure 401 logs))"

definition queued :: client where
  "queued =
     run (initial both_tokens)
       [Response_error (failure 401 logs), Response_error (failure 401 routines)]"

definition signed_out :: client where
  "signed_out = run (initial access_only) []"

text \<open>
  The configuration with which the queued request for the routines goes out again
  once the exchange has granted \<open>T2\<close>; it is the \<open>config\<close> of the error if that replay
  fails.
\<close>

definition replayed :: axios_config where
  "replayed = apiClient (step queued (Refresh_settled (granted ''T2''))) (bearer ''T2'' routines)"

fun calls :: "string \<Rightarrow> effect \<Rightarrow> bool" where
  "calls u (Call_apiClient r) = (url r = u)"
| "calls u _ = False"

section \<open>The steps of the handler\<close>

lemma rejected_pass:
  "\<not> intercepts e \<Longrightarrow>
   rejected (AxiosError e) c = c\<lparr>effects := effects c @ [propagated e]\<rparr>"
  by (simp add: rejected_def emit_def propagated_def)

lemma rejected_queue:
  "intercepts e \<Longrightarrow> isRefreshing c \<Longrightarrow>
   rejected (AxiosError e) c = c\<lparr>failedQueue := failedQueue c @ [config e]\<rparr>"
  by (simp add: rejected_def)

lemma rejected_start:
  "intercepts e \<Longrightarrow> \<not> isRefreshing c \<Longrightarrow> localStorage c ''refreshToken'' = Some t \<Longrightarrow>
   t \<noteq> [] \<Longrightarrow>
   rejected (AxiosError e) c =
     c\<lparr>isRefreshing := True, awaiting := Some ((config e)\<lparr>retry := True\<rparr>),
       effects := effects c @ [Post_refresh t]\<rparr>"
  by (simp add: rejected_def emit_def)

lemma rejected_logout:
  "no_refresh_token e c \<Longrightarrow>
   rejected (AxiosError e) c =
     c\<lparr>localStorage := (localStorage c)(''accessToken'' := None, ''refreshToken'' := None),
       effects := effects c @
         [Set_location ''/login'', propagated (e\<lparr>config := (config e)\<lparr>retry := True\<rparr>\<rparr>)]\<rparr>"
  by (cases "localStorage c ''refreshToken''")
     (simp_all add: no_refresh_token_def rejected_def force_logout_def emit_def removeItem_def
        propagated_def)

lemma rejected_without_config:
  "error_config error = None \<Longrightarrow>
   rejected error c =
     c\<lparr>effects := effects c @ [Handler_throws (TypeError (cannot_read ''undefined'' ''url''))]\<rparr>"
  by (cases error) (simp_all add: rejected_def emit_def)

lemma resumed_idle: "awaiting c = None \<Longrightarrow> resumed x c = c"
  by (simp add: resumed_def)

lemma resumed_success:
  "awaiting c = Some r \<Longrightarrow> thrown x = None \<Longrightarrow>
   resumed x c =
     c\<lparr>isRefreshing := False, awaiting := None, failedQueue := [],
       localStorage := (localStorage c)(''accessToken'' \<mapsto> new_token x),
       defaults_headers :=
         (defaults_headers c)(''Authorization'' \<mapsto> ''Bearer '' @ new_token x),
       microtasks :=
         microtasks c @ map (\<lambda>prom. (prom, Resolve (resolved_with x))) (failedQueue c),
       effects := effects c @ [Call_apiClient (bearer (new_token x) r)]\<rparr>"
  by (cases x)
     (auto simp add: resumed_def try_block_def thrown_def new_token_def resolved_with_def
        finally_block_def processQueue_def setItem_def emit_def Let_def
        split: if_splits option.splits)

lemma resumed_failure:
  "awaiting c = Some r \<Longrightarrow> thrown x = Some err \<Longrightarrow>
   resumed x c =
     c\<lparr>isRefreshing := False, awaiting := None, failedQueue := [],
       localStorage := (localStorage c)(''accessToken'' := None, ''refreshToken'' := None),
       microtasks := microtasks c @ map (\<lambda>prom. (prom, Reject err)) (failedQueue c),
       effects := effects c @ [Set_location ''/login'', Promise_reject r err]\<rparr>"
  by (cases x)
     (auto simp add: resumed_def try_block_def thrown_def catch_block_def finally_block_def
        processQueue_def removeItem_def emit_def Let_def split: if_splits)

lemma run_microtasks_none: "microtasks c = [] \<Longrightarrow> run_microtasks c = c"
  by (cases c) (simp add: run_microtasks_def)

lemma step_pass:
  "microtasks c = [] \<Longrightarrow> \<not> intercepts e \<Longrightarrow>
   step c (Response_error e) = c\<lparr>effects := effects c @ [propagated e]\<rparr>"
  by (simp add: rejected_pass run_microtasks_none)

lemma step_queue:
  "microtasks c = [] \<Longrightarrow> intercepts e \<Longrightarrow> isRefreshing c \<Longrightarrow>
   step c (Response_error e) = c\<lparr>failedQueue := failedQueue c @ [config e]\<rparr>"
  by (simp add: rejected_queue run_microtasks_none)

lemma step_start:
  "microtasks c = [] \<Longrightarrow> intercepts e \<Longrightarrow> \<not> isRefreshing c \<Longrightarrow>
   localStorage c ''refreshToken'' = Some t \<Longrightarrow> t \<noteq> [] \<Longrightarrow>
   step c (Response_error e) =
     c\<lparr>isRefreshing := True, awaiting := Some ((config e)\<lparr>retry := True\<rparr>),
       effects := effects c @ [Post_refresh t]\<rparr>"
  by (simp add: rejected_start run_microtasks_none)

lemma step_logout:
  "microtasks c = [] \<Longrightarrow> no_refresh_token e c \<Longrightarrow>
   step c (Response_error e) =
     c\<lparr>localStorage := (localStorage c)(''accessToken'' := None, ''refreshToken'' := None),
       effects := effects c @
         [Set_location ''/login'', propagated (e\<lparr>config := (config e)\<lparr>retry := True\<rparr>\<rparr>)]\<rparr>"
  by (simp add: rejected_logout run_microtasks_none)

lemma step_success:
  "microtasks c = [] \<Longrightarrow> awaiting c = Some r \<Longrightarrow> thrown x = None \<Longrightarrow>
   step c (Refresh_settled x) =
     c\<lparr>isRefreshing := False, awaiting := None, failedQueue := [],
       localStorage := (localStorage c)(''accessToken'' \<mapsto> new_token x),
       defaults_headers :=
         (defaults_headers c)(''Authorization'' \<mapsto> ''Bearer '' @ new_token x),
       effects := effects c @
         Call_apiClient (bearer (new_token x) r) #
         map (\<lambda>q. Call_apiClient (bearer (queue_token x) q)) (failedQueue c)\<rparr>"
  by (cases c) (simp add: resumed_success run_microtasks_def comp_def queue_token_def)

lemma step_failure:
  "microtasks c = [] \<Longrightarrow> awaiting c = Some r \<Longrightarrow> thrown x = Some err \<Longrightarrow>
   step c (Refresh_settled x) =
     c\<lparr>isRefreshing := False, awaiting := None, failedQueue := [],
       localStorage := (localStorage c)(''accessToken'' := None, ''refreshToken'' := None),
       effects := effects c @
         Set_location ''/login'' # Promise_reject r err #
         map (\<lambda>q. Promise_reject q err) (failedQueue c)\<rparr>"
  by (cases c) (simp add: resumed_failure run_microtasks_def comp_def)

lemma step_without_config:
  "microtasks c = [] \<Longrightarrow> error_config error = None \<Longrightarrow>
   step c (Rejection error) =
     c\<lparr>effects := effects c @ [Handler_throws (TypeError (cannot_read ''undefined'' ''url''))]\<rparr>"
  by (simp add: rejected_without_config run_microtasks_none)

lemma step_nothing_awaiting:
  "microtasks c = [] \<Longrightarrow> awaiting c = None \<Longrightarrow> step c (Refresh_settled x) = c"
  by (simp add: resumed_idle run_microtasks_none)

declare step.simps [simp del]

lemma truthy_item_cases:
  "truthy_item v \<Longrightarrow> (\<And>t. v = Some t \<Longrightarrow> t \<noteq> [] \<Longrightarrow> P) \<Longrightarrow> P"
  by (cases v) auto

lemma consistent_initial: "consistent (initial store)"
  by (simp add: consistent_def initial_def)

lemma consistent_response_error:
  assumes c: "consistent c"
  shows "consistent (step c (Response_error e))"
proof -
  from c have m: "microtasks c = []"
    by (simp add: consistent_def)
  consider (pass) "\<not> intercepts e"
    | (queue) "intercepts e" "isRefreshing c"
    | (logout) "no_refresh_token e c"
    | (start) "intercepts e" "\<not> isRefreshing c" "truthy_item (localStorage c ''refreshToken'')"
    by (auto simp add: no_refresh_token_def)
  then show ?thesis
  proof cases
    case pass
    with c m show ?thesis
      by (auto simp add: step_pass consistent_def)
  next
    case queue
    with c m show ?thesis
      by (auto simp add: step_queue consistent_def)
  next
    case logout
    with c m show ?thesis
      by (auto simp add: step_logout consistent_def no_refresh_token_def)
  next
    case start
    from start(3) obtain t where "localStorage c ''refreshToken'' = Some t" "t \<noteq> []"
      by (rule truthy_item_cases)
    with start c m show ?thesis
      by (auto simp add: step_start consistent_def)
  qed
qed

lemma consistent_step:
  assumes c: "consistent c"
  shows "consistent (step c ev)"
proof -
  from c have m: "microtasks c = []"
    by (simp add: consistent_def)
  show ?thesis
  proof (cases ev)
    case (Rejection error)
    show ?thesis
    proof (cases "error_config error")
      case None
      with c m Rejection show ?thesis
        by (auto simp add: step_without_config consistent_def)
    next
      case (Some r)
      then obtain e where "error = AxiosError e"
        by (cases error) simp_all
      with c Rejection show ?thesis
        by (simp add: consistent_response_error)
    qed
  next
    case (Refresh_settled x)
    show ?thesis
    proof (cases "awaiting c")
      case None
      with c m Refresh_settled show ?thesis
        by (simp add: step_nothing_awaiting)
    next
      case (Some r)
      show ?thesis
      proof (cases "thrown x")
        case None
        with c m Some Refresh_settled show ?thesis
          by (auto simp add: step_success consistent_def)
      next
        case (Some err)
        with c m \<open>awaiting c = Some r\<close> Refresh_settled show ?thesis
          by (auto simp add: step_failure consistent_def)
      qed
    qed
  qed
qed

lemma consistent_run: "consistent c \<Longrightarrow> consistent (run c evs)"
  unfolding run_def by (induction evs arbitrary: c) (simp_all add: consistent_step)

lemma run_append: "run c (evs @ evs') = run (run c evs) evs'"
  by (simp add: run_def)

lemma run_Cons: "run c (ev # evs) = run (step c ev) evs"
  by (simp add: run_def)

lemma run_Nil: "run c [] = c"
  by (simp add: run_def)

text \<open>While the exchange is in flight, failures only grow the queue or are handed back.\<close>

lemma run_while_refreshing:
  "isRefreshing c \<Longrightarrow> microtasks c = [] \<Longrightarrow>
   run c (map Response_error es) =
     c\<lparr>failedQueue := failedQueue c @ map config (filter intercepts es),
       effects := effects c @ map propagated (filter (\<lambda>e. \<not> intercepts e) es)\<rparr>"
proof (induction es arbitrary: c)
  case Nil
  then show ?case by (simp add: run_Nil)
next
  case (Cons e es)
  show ?case
  proof (cases "intercepts e")
    case True
    with Cons.prems have s: "step c (Response_error e) = c\<lparr>failedQueue := failedQueue c @ [config e]\<rparr>"
      by (simp add: step_queue)
    from Cons.prems show ?thesis
      by (simp add: run_Cons s Cons.IH True)
  next
    case False
    with Cons.prems have s: "step c (Response_error e) = c\<lparr>effects := effects c @ [propagated e]\<rparr>"
      by (simp add: step_pass)
    from Cons.prems show ?thesis
      by (simp add: run_Cons s Cons.IH False)
  qed
qed

subsection \<open>What never starts an exchange\<close>

lemma no_exchange_in_reactions: "filter is_exchange (map reaction ms) = []"
proof (induction ms)
  case Nil
  show ?case by simp
next
  case (Cons m ms)
  obtain q s where m: "m = (q, s)" by (cases m)
  from Cons show ?case by (cases s) (simp_all add: m)
qed

lemma exchanges_run_microtasks: "exchanges (run_microtasks c) = exchanges c"
  by (simp add: exchanges_def run_microtasks_def no_exchange_in_reactions)

lemma exchanges_resumed: "exchanges (resumed x c) = exchanges c"
proof (cases "awaiting c")
  case None
  then show ?thesis by (simp add: resumed_idle)
next
  case (Some r)
  then show ?thesis
    by (cases "thrown x") (simp_all add: resumed_success resumed_failure exchanges_def)
qed

lemma exchanges_settled: "exchanges (step c (Refresh_settled x)) = exchanges c"
  by (simp add: step.simps exchanges_run_microtasks exchanges_resumed)

lemma logout_count_reactions:
  "filter is_logout (map (\<lambda>q. Promise_reject q err) qs) = []"
  by (induction qs) simp_all

subsection \<open>What holds between two turns\<close>

lemma consistent_reachable: "consistent (run (initial store) evs)"
  by (simp add: consistent_initial consistent_run)

lemma microtasks_resumed:
  "microtasks c = [] \<Longrightarrow> awaiting c = Some r \<Longrightarrow>
   microtasks (resumed x c) = map (\<lambda>prom. (prom, settlement_of x)) (failedQueue c) \<and>
   failedQueue (resumed x c) = [] \<and> \<not> isRefreshing (resumed x c)"
  by (cases "thrown x") (simp_all add: resumed_success resumed_failure settlement_of_def)

lemma failedQueue_settled:
  "microtasks c = [] \<Longrightarrow> awaiting c = Some r \<Longrightarrow>
   failedQueue (step c (Refresh_settled x)) = [] \<and> \<not> isRefreshing (step c (Refresh_settled x))"
  by (cases "thrown x") (simp_all add: step_success step_failure)

lemma apiClient_uses_stored_token:
  assumes "localStorage c ''accessToken'' = Some tok"
    and "defaults_headers c ''Authorization'' = Some (''Bearer '' @ tok)"
    and "headers q ''Authorization'' = None \<or> tok \<noteq> [] \<or>
         headers q ''Authorization'' = Some (''Bearer '' @ tok)"
  shows "headers (apiClient c q) ''Authorization'' = Some (''Bearer '' @ tok)"
  using assms
  by (cases "tok = []")
     (auto simp add: apiClient_def request_interceptor_def holding_def map_add_def)

subsection \<open>The concrete runs\<close>

lemma intercepts_failure:
  "intercepts (failure st r) \<longleftrightarrow>
     st = 401 \<and> \<not> retry r \<and> \<not> endsWith (url r) REFRESH_TOKEN_ENDPOINT"
  by (simp add: intercepts_def failure_def)

lemma config_failure: "config (failure st r) = r"
  by (simp add: failure_def)

lemma intercepts_logs: "intercepts (failure 401 logs)"
  by (simp add: intercepts_failure logs_def request_to_def endsWith_def REFRESH_TOKEN_ENDPOINT_def)

lemma intercepts_routines: "intercepts (failure 401 routines)"
  by (simp add: intercepts_failure routines_def request_to_def endsWith_def
        REFRESH_TOKEN_ENDPOINT_def)

lemma thrown_granted: "thrown (granted t) = None"
  by (simp add: thrown_def granted_def)

lemma new_token_granted: "new_token (granted t) = t"
  by (simp add: new_token_def granted_def)

lemma queue_token_granted: "queue_token (granted t) = t"
  by (simp add: queue_token_def resolved_with_def granted_def)

lemma resolved_with_granted: "resolved_with (granted t) = Some (JStr t)"
  by (simp add: resolved_with_def granted_def)

lemma thrown_Failed: "thrown (Failed err) = Some err"
  by (simp add: thrown_def)

lemma in_flight_eq:
  "in_flight =
     \<lparr>isRefreshing = True, failedQueue = [], localStorage = both_tokens,
      defaults_headers = [''Content-Type'' \<mapsto> ''application/json''],
      awaiting = Some (logs\<lparr>retry := True\<rparr>), microtasks = [], effects = [Post_refresh ''R1'']\<rparr>"
proof -
  have "localStorage (initial both_tokens) ''refreshToken'' = Some ''R1''"
    by (simp add: initial_def both_tokens_def)
  then have "in_flight =
      (initial both_tokens)\<lparr>isRefreshing := True,
        awaiting := Some ((config (failure 401 logs))\<lparr>retry := True\<rparr>),
        effects := effects (initial both_tokens) @ [Post_refresh ''R1'']\<rparr>"
    unfolding in_flight_def
    by (intro step_start intercepts_logs) (simp_all add: initial_def)
  then show ?thesis
    by (simp add: initial_def failure_def)
qed

lemma queued_eq: "queued = in_flight\<lparr>failedQueue := [routines]\<rparr>"
proof -
  have "queued = step in_flight (Response_error (failure 401 routines))"
    by (simp add: queued_def run_Cons run_Nil in_flight_def)
  also have "\<dots> = in_flight\<lparr>failedQueue := failedQueue in_flight @ [config (failure 401 routines)]\<rparr>"
    by (intro step_queue intercepts_routines) (simp_all add: in_flight_eq)
  finally show ?thesis
    by (simp add: in_flight_eq config_failure)
qed

lemma signed_out_eq: "signed_out = initial access_only"
  by (simp add: signed_out_def run_Nil)

lemma no_refresh_token_signed_out: "no_refresh_token (failure 401 logs) signed_out"
  by (simp add: no_refresh_token_def intercepts_logs signed_out_eq initial_def access_only_def)

lemma consistent_queued: "consistent queued"
  by (simp add: queued_def consistent_reachable)

lemma consistent_signed_out: "consistent signed_out"
  by (simp add: signed_out_def consistent_reachable)

lemma queued_fields:
  "isRefreshing queued" "failedQueue queued = [routines]" "microtasks queued = []"
  "awaiting queued = Some (logs\<lparr>retry := True\<rparr>)" "effects queued = [Post_refresh ''R1'']"
  "localStorage queued = both_tokens"
  by (simp_all add: queued_eq in_flight_eq)

lemma refreshed_eq:
  "step queued (Refresh_settled (granted ''T2'')) =
     \<lparr>isRefreshing = False, failedQueue = [],
      localStorage = both_tokens(''accessToken'' \<mapsto> ''T2''),
      defaults_headers = [''Content-Type'' \<mapsto> ''application/json'', ''Authorization'' \<mapsto> ''Bearer T2''],
      awaiting = None, microtasks = [],
      effects = [Post_refresh ''R1'', Call_apiClient (bearer ''T2'' (logs\<lparr>retry := True\<rparr>)),
        Call_apiClient (bearer ''T2'' routines)]\<rparr>"
  using step_success [OF queued_fields(3) queued_fields(4) thrown_granted, of "''T2''"]
  by (simp add: queued_eq in_flight_eq new_token_granted queue_token_granted)

lemma replayed_fields:
  "url replayed = ''/api/solo/assigned-routines/''" "\<not> retry replayed"
  "headers replayed ''Authorization'' = Some ''Bearer T2''"
  by (simp_all add: replayed_def refreshed_eq apiClient_def request_interceptor_def holding_def
        bearer_def routines_def request_to_def both_tokens_def)

lemma intercepts_replayed: "intercepts (failure 401 replayed)"
  by (simp add: intercepts_failure replayed_fields endsWith_def REFRESH_TOKEN_ENDPOINT_def)

section \<open>The refresh coordinator\<close>

text \<open>
  C1. Single flight. Let an exchange be in flight (\<open>isRefreshing\<close> holds and a handler
  is suspended at it), and let any number of requests fail with a 401 that the handler
  intercepts. Then each of them is appended to the queue and nothing else happens: no
  exchange is started and nothing is handed to a caller. When the exchange settles,
  whatever its outcome, the number of exchanges is still what it was, the queue is
  empty, and every one of the requests, like those queued before, has been replayed
  (the exchange succeeded) or rejected with the refresh error (it failed).
\<close>

theorem single_flight:
  assumes "isRefreshing c" and "awaiting c = Some r" and "microtasks c = []"
    and "\<forall>e\<in>set es. intercepts e"
  shows "run c (map Response_error es) = c\<lparr>failedQueue := failedQueue c @ map config es\<rparr> \<and>
         exchanges (run c (map Response_error es @ [Refresh_settled x])) = exchanges c \<and>
         failedQueue (run c (map Response_error es @ [Refresh_settled x])) = [] \<and>
         \<not> isRefreshing (run c (map Response_error es @ [Refresh_settled x])) \<and>
         effects (run c (map Response_error es @ [Refresh_settled x])) =
           effects c @
           (case thrown x of
              None \<Rightarrow>
                Call_apiClient (bearer (new_token x) r) #
                map (\<lambda>q. Call_apiClient (bearer (queue_token x) q)) (failedQueue c @ map config es)
            | Some err \<Rightarrow>
                Set_location ''/login'' # Promise_reject r err #
                map (\<lambda>q. Promise_reject q err) (failedQueue c @ map config es))"
proof -
  let ?c1 = "c\<lparr>failedQueue := failedQueue c @ map config es\<rparr>"
  from assms(4) have all: "filter intercepts es = es" "filter (\<lambda>e. \<not> intercepts e) es = []"
    by (simp_all add: filter_empty_conv)
  from assms(1,3) have queued: "run c (map Response_error es) = ?c1"
    by (simp add: run_while_refreshing all)
  have last: "run c (map Response_error es @ [Refresh_settled x]) = step ?c1 (Refresh_settled x)"
    by (simp add: run_append queued run_Cons run_Nil)
  have a: "awaiting ?c1 = Some r" "microtasks ?c1 = []"
    using assms by simp_all
  show ?thesis
  proof (cases "thrown x")
    case None
    from step_success [OF a(2) a(1) None] queued last show ?thesis
      by (simp add: None exchanges_def)
  next
    case (Some err)
    from step_failure [OF a(2) a(1) Some] queued last show ?thesis
      by (simp add: Some exchanges_def)
  qed
qed

theorem single_flight_witness:
  "isRefreshing in_flight \<and> awaiting in_flight = Some (logs\<lparr>retry := True\<rparr>) \<and>
   microtasks in_flight = [] \<and> intercepts (failure 401 routines) \<and>
   run in_flight [Response_error (failure 401 routines)] = in_flight\<lparr>failedQueue := [routines]\<rparr> \<and>
   exchanges (run in_flight [Response_error (failure 401 routines), Refresh_settled (granted ''T2'')]) = 1 \<and>
   effects (run in_flight [Response_error (failure 401 routines), Refresh_settled (granted ''T2'')]) =
     [Post_refresh ''R1'', Call_apiClient (bearer ''T2'' (logs\<lparr>retry := True\<rparr>)),
      Call_apiClient (bearer ''T2'' routines)] \<and>
   effects (run in_flight [Response_error (failure 401 routines), Refresh_settled (Failed refused)]) =
     [Post_refresh ''R1'', Set_location ''/login'',
      Promise_reject (logs\<lparr>retry := True\<rparr>) refused, Promise_reject routines refused]"
  using single_flight [of in_flight "logs\<lparr>retry := True\<rparr>" "[failure 401 routines]" "granted ''T2''"]
    single_flight [of in_flight "logs\<lparr>retry := True\<rparr>" "[failure 401 routines]" "Failed refused"]
  by (simp add: in_flight_eq intercepts_routines thrown_granted new_token_granted
        queue_token_granted thrown_Failed exchanges_def config_failure)

text \<open>
  A request whose \<^verbatim>\<open>_retry\<close> mark is set is not intercepted again: its next failure goes
  to the caller, as \<open>step_pass\<close> says.
\<close>

lemma retried_not_intercepted: "retry (config e) \<Longrightarrow> \<not> intercepts e"
  by (simp add: intercepts_def)

text \<open>
  C2. The mark is set on the request that starts the exchange (line 72) and not on a
  request that is queued (the \<^verbatim>\<open>return\<close> of line 63 comes first). In this run the request
  for the routines is queued behind the exchange started for the session logs, is
  replayed with \<open>T2\<close>, fails with 401 again, is intercepted again since its mark is not
  set, starts a second exchange and is replayed a second time.
\<close>

theorem queued_request_replayed_twice:
  "\<not> retry replayed \<and> url replayed = url routines \<and>
   effects
     (run (initial both_tokens)
        [Response_error (failure 401 logs), Response_error (failure 401 routines),
         Refresh_settled (granted ''T2''), Response_error (failure 401 replayed),
         Refresh_settled (granted ''T3'')]) =
     [Post_refresh ''R1'', Call_apiClient (bearer ''T2'' (logs\<lparr>retry := True\<rparr>)),
      Call_apiClient (bearer ''T2'' routines), Post_refresh ''R1'',
      Call_apiClient (bearer ''T3'' (replayed\<lparr>retry := True\<rparr>))] \<and>
   length (filter (calls (url routines))
     (effects
       (run (initial both_tokens)
          [Response_error (failure 401 logs), Response_error (failure 401 routines),
           Refresh_settled (granted ''T2''), Response_error (failure 401 replayed),
           Refresh_settled (granted ''T3'')]))) = 2"
proof -
  define c3 where "c3 = step queued (Refresh_settled (granted ''T2''))"
  define c4 where "c4 = step c3 (Response_error (failure 401 replayed))"
  have run: "run (initial both_tokens)
        [Response_error (failure 401 logs), Response_error (failure 401 routines),
         Refresh_settled (granted ''T2''), Response_error (failure 401 replayed),
         Refresh_settled (granted ''T3'')] = step c4 (Refresh_settled (granted ''T3''))"
    by (simp add: run_Cons run_Nil queued_def c3_def c4_def)
  have c3: "\<not> isRefreshing c3" "microtasks c3 = []" "failedQueue c3 = []"
    "localStorage c3 ''refreshToken'' = Some ''R1''"
    "effects c3 = [Post_refresh ''R1'', Call_apiClient (bearer ''T2'' (logs\<lparr>retry := True\<rparr>)),
        Call_apiClient (bearer ''T2'' routines)]"
    by (simp_all add: c3_def refreshed_eq both_tokens_def)
  have "c4 = c3\<lparr>isRefreshing := True, awaiting := Some ((config (failure 401 replayed))\<lparr>retry := True\<rparr>),
       effects := effects c3 @ [Post_refresh ''R1'']\<rparr>"
    unfolding c4_def by (intro step_start intercepts_replayed c3) simp
  then have c4: "microtasks c4 = []" "awaiting c4 = Some (replayed\<lparr>retry := True\<rparr>)"
    "failedQueue c4 = []" "effects c4 = effects c3 @ [Post_refresh ''R1'']"
    by (simp_all add: c3 config_failure)
  have c5: "effects (step c4 (Refresh_settled (granted ''T3''))) =
      effects c4 @ [Call_apiClient (bearer ''T3'' (replayed\<lparr>retry := True\<rparr>))]"
    by (simp add: step_success [OF c4(1) c4(2) thrown_granted] new_token_granted c4(3))
  have u: "url routines = ''/api/solo/assigned-routines/''" "url logs = ''/api/solo/session-logs/''"
    by (simp_all add: routines_def logs_def request_to_def)
  show ?thesis
    by (simp add: run c5 c4 c3 replayed_fields u bearer_def)
qed

text \<open>
  C3, amended. In a state between two turns: when the exchange fails, or its response
  has no body to read the token from, the handler rejects every queued promise with
  the refresh error, removes both tokens from the store, assigns the login page to the
  location once, rejects the promise of the triggering request with the refresh error
  and leaves \<open>isRefreshing\<close> false. When the store holds no refresh token (or an empty
  one), the queue is empty, no exchange is posted, both tokens are removed, the
  location is assigned once, \<open>isRefreshing\<close> is false, and the promise of the triggering
  request is rejected with that request's own error, the 401 response it came in with.
\<close>

theorem refresh_unrecoverable:
  assumes "consistent c"
  shows "(awaiting c = Some r \<and> thrown x = Some err \<longrightarrow>
            step c (Refresh_settled x) =
              c\<lparr>isRefreshing := False, awaiting := None, failedQueue := [],
                localStorage := (localStorage c)(''accessToken'' := None, ''refreshToken'' := None),
                effects := effects c @
                  Set_location ''/login'' # Promise_reject r err #
                  map (\<lambda>q. Promise_reject q err) (failedQueue c)\<rparr> \<and>
            logouts (step c (Refresh_settled x)) = logouts c + 1) \<and>
         (no_refresh_token e c \<longrightarrow>
            failedQueue c = [] \<and>
            step c (Response_error e) =
              c\<lparr>localStorage := (localStorage c)(''accessToken'' := None, ''refreshToken'' := None),
                effects := effects c @
                  [Set_location ''/login'',
                   Promise_reject ((config e)\<lparr>retry := True\<rparr>)
                     (AxiosError (e\<lparr>config := (config e)\<lparr>retry := True\<rparr>\<rparr>))]\<rparr> \<and>
            \<not> isRefreshing (step c (Response_error e)) \<and>
            exchanges (step c (Response_error e)) = exchanges c \<and>
            logouts (step c (Response_error e)) = logouts c + 1)"
proof -
  from assms have m: "microtasks c = []"
    by (simp add: consistent_def)
  have f: "step c (Refresh_settled x) =
              c\<lparr>isRefreshing := False, awaiting := None, failedQueue := [],
                localStorage := (localStorage c)(''accessToken'' := None, ''refreshToken'' := None),
                effects := effects c @
                  Set_location ''/login'' # Promise_reject r err #
                  map (\<lambda>q. Promise_reject q err) (failedQueue c)\<rparr> \<and>
            logouts (step c (Refresh_settled x)) = logouts c + 1"
    if "awaiting c = Some r" "thrown x = Some err"
    using step_failure [OF m that] by (simp add: logouts_def logout_count_reactions)
  have l: "failedQueue c = [] \<and>
            step c (Response_error e) =
              c\<lparr>localStorage := (localStorage c)(''accessToken'' := None, ''refreshToken'' := None),
                effects := effects c @
                  [Set_location ''/login'',
                   Promise_reject ((config e)\<lparr>retry := True\<rparr>)
                     (AxiosError (e\<lparr>config := (config e)\<lparr>retry := True\<rparr>\<rparr>))]\<rparr> \<and>
            \<not> isRefreshing (step c (Response_error e)) \<and>
            exchanges (step c (Response_error e)) = exchanges c \<and>
            logouts (step c (Response_error e)) = logouts c + 1"
    if "no_refresh_token e c"
  proof -
    from that assms have "failedQueue c = []" "\<not> isRefreshing c"
      by (auto simp add: consistent_def no_refresh_token_def)
    with step_logout [OF m that] show ?thesis
      by (simp add: propagated_def exchanges_def logouts_def)
  qed
  from f l show ?thesis by blast
qed

theorem refresh_unrecoverable_witness:
  "consistent queued \<and> awaiting queued = Some (logs\<lparr>retry := True\<rparr>) \<and>
   thrown (Failed refused) = Some refused \<and>
   effects (step queued (Refresh_settled (Failed refused))) =
     [Post_refresh ''R1'', Set_location ''/login'',
      Promise_reject (logs\<lparr>retry := True\<rparr>) refused, Promise_reject routines refused] \<and>
   localStorage (step queued (Refresh_settled (Failed refused))) ''accessToken'' = None \<and>
   localStorage (step queued (Refresh_settled (Failed refused))) ''refreshToken'' = None \<and>
   \<not> isRefreshing (step queued (Refresh_settled (Failed refused))) \<and>
   consistent signed_out \<and> no_refresh_token (failure 401 logs) signed_out \<and>
   localStorage (step signed_out (Response_error (failure 401 logs))) ''accessToken'' = None \<and>
   logouts (step signed_out (Response_error (failure 401 logs))) = 1"
  using refresh_unrecoverable
      [OF consistent_queued, of "logs\<lparr>retry := True\<rparr>" "Failed refused" refused "failure 401 logs"]
    refresh_unrecoverable
      [OF consistent_signed_out, of "logs\<lparr>retry := True\<rparr>" "Failed refused" refused "failure 401 logs"]
    no_refresh_token_signed_out consistent_queued consistent_signed_out
  by (simp add: queued_fields thrown_Failed)
     (simp add: signed_out_eq initial_def logouts_def)

text \<open>
  C3 as stated fails in the branch without a refresh token: the promise of the
  triggering request is rejected with the 401 error of that request, and there is no
  refresh error, since no exchange was made.
\<close>

theorem no_refresh_token_own_error_counterexample:
  "effects (step signed_out (Response_error (failure 401 logs))) =
     [Set_location ''/login'',
      Promise_reject (logs\<lparr>retry := True\<rparr>) (AxiosError (failure 401 (logs\<lparr>retry := True\<rparr>)))] \<and>
   exchanges (step signed_out (Response_error (failure 401 logs))) = 0"
proof -
  have "microtasks signed_out = []"
    by (simp add: signed_out_eq initial_def)
  from step_logout [OF this no_refresh_token_signed_out] show ?thesis
    by (simp add: exchanges_def propagated_def signed_out_eq initial_def failure_def)
qed

text \<open>
  C4. When the exchange is fulfilled with a body whose \<open>access\<close> property is the new
  token, the handler stores the token under \<open>accessToken\<close>, sets it as the default
  \<open>Authorization\<close> header, calls the client again for the triggering request and then for
  every queued request, each carrying \<^verbatim>\<open>Bearer <token>\<close> (also on the wire), empties the
  queue and leaves \<open>isRefreshing\<close> false. A later request that brings no \<open>Authorization\<close>
  header of its own goes out with the new token too.
\<close>

theorem refresh_success:
  assumes "microtasks c = []" and "awaiting c = Some r"
    and "x = Fulfilled (Some (JObj kvs))" and "map_of kvs ''access'' = Some v"
    and "tok = String_json v"
    and "c' = step c (Refresh_settled x)"
  shows "localStorage c' ''accessToken'' = Some tok \<and>
         defaults_headers c' ''Authorization'' = Some (''Bearer '' @ tok) \<and>
         effects c' = effects c @
           Call_apiClient (bearer tok r) # map (\<lambda>q. Call_apiClient (bearer tok q)) (failedQueue c) \<and>
         headers (bearer tok q) ''Authorization'' = Some (''Bearer '' @ tok) \<and>
         headers (apiClient c' (bearer tok q)) ''Authorization'' = Some (''Bearer '' @ tok) \<and>
         failedQueue c' = [] \<and> \<not> isRefreshing c' \<and> awaiting c' = None \<and>
         (headers q ''Authorization'' = None \<or> tok \<noteq> [] \<longrightarrow>
            headers (apiClient c' q) ''Authorization'' = Some (''Bearer '' @ tok))"
proof -
  from assms(3) have t: "thrown x = None"
    by (simp add: thrown_def)
  from assms(3,4,5) have n: "new_token x = tok" "queue_token x = tok"
    by (simp_all add: new_token_def queue_token_def resolved_with_def)
  from step_success [OF assms(1,2) t] assms(6) n have c':
    "c' = c\<lparr>isRefreshing := False, awaiting := None, failedQueue := [],
       localStorage := (localStorage c)(''accessToken'' \<mapsto> tok),
       defaults_headers := (defaults_headers c)(''Authorization'' \<mapsto> ''Bearer '' @ tok),
       effects := effects c @
         Call_apiClient (bearer tok r) # map (\<lambda>q. Call_apiClient (bearer tok q)) (failedQueue c)\<rparr>"
    by simp
  have s: "localStorage c' ''accessToken'' = Some tok"
    and d: "defaults_headers c' ''Authorization'' = Some (''Bearer '' @ tok)"
    by (simp_all add: c')
  have b: "headers (bearer tok q) ''Authorization'' = Some (''Bearer '' @ tok)"
    by (simp add: bearer_def)
  from s d b have w: "headers (apiClient c' (bearer tok q)) ''Authorization'' = Some (''Bearer '' @ tok)"
    by (intro apiClient_uses_stored_token) simp_all
  have i: "headers (apiClient c' q) ''Authorization'' = Some (''Bearer '' @ tok)"
    if "headers q ''Authorization'' = None \<or> tok \<noteq> []"
    using s d that by (intro apiClient_uses_stored_token) auto
  from s d b w i show ?thesis
    by (simp add: c')
qed

theorem refresh_success_witness:
  "microtasks queued = [] \<and> awaiting queued = Some (logs\<lparr>retry := True\<rparr>) \<and>
   granted ''T2'' = Fulfilled (Some (JObj [(''access'', JStr ''T2'')])) \<and>
   map_of [(''access'', JStr ''T2'')] ''access'' = Some (JStr ''T2'') \<and>
   ''T2'' = String_json (JStr ''T2'') \<and>
   localStorage (step queued (Refresh_settled (granted ''T2''))) ''accessToken'' = Some ''T2'' \<and>
   effects (step queued (Refresh_settled (granted ''T2''))) =
     [Post_refresh ''R1'', Call_apiClient (bearer ''T2'' (logs\<lparr>retry := True\<rparr>)),
      Call_apiClient (bearer ''T2'' routines)] \<and>
   headers (apiClient (step queued (Refresh_settled (granted ''T2''))) (request_to ''/api/solo/assigned-routines/7/''))
     ''Authorization'' = Some ''Bearer T2''"
  using refresh_success
      [of queued "logs\<lparr>retry := True\<rparr>" "granted ''T2''" "[(''access'', JStr ''T2'')]" "JStr ''T2''"
        "''T2''" "step queued (Refresh_settled (granted ''T2''))"
        "request_to ''/api/solo/assigned-routines/7/''"]
  by (simp add: queued_fields granted_def)

text \<open>
  C5. In every state reached from the initial one, the queue is non-empty only while
  \<open>isRefreshing\<close> holds. When the exchange settles, the block of the handler settles
  each entry of the queue once, in order and in the same way, and empties the queue;
  the reactions of exactly these entries then run. The queue is empty as well after the
  branch without a refresh token.
\<close>

theorem queue_invariant:
  assumes "c = run (initial store) evs"
  shows "(failedQueue c \<noteq> [] \<longrightarrow> isRefreshing c) \<and>
         (awaiting c \<noteq> None \<longrightarrow>
            microtasks (resumed x c) = map (\<lambda>prom. (prom, settlement_of x)) (failedQueue c) \<and>
            failedQueue (resumed x c) = [] \<and>
            failedQueue (step c (Refresh_settled x)) = [] \<and>
            effects (step c (Refresh_settled x)) =
              effects (resumed x c) @ map reaction (microtasks (resumed x c))) \<and>
         (no_refresh_token e c \<longrightarrow> failedQueue (step c (Response_error e)) = [])"
proof -
  from assms have c: "consistent c"
    by (simp add: consistent_reachable)
  then have m: "microtasks c = []"
    by (simp add: consistent_def)
  from c have q: "failedQueue c \<noteq> [] \<longrightarrow> isRefreshing c"
    by (auto simp add: consistent_def)
  have s: "microtasks (resumed x c) = map (\<lambda>prom. (prom, settlement_of x)) (failedQueue c) \<and>
            failedQueue (resumed x c) = [] \<and>
            failedQueue (step c (Refresh_settled x)) = [] \<and>
            effects (step c (Refresh_settled x)) =
              effects (resumed x c) @ map reaction (microtasks (resumed x c))"
    if "awaiting c \<noteq> None"
  proof -
    from that obtain r where r: "awaiting c = Some r" by auto
    from microtasks_resumed [OF m r] failedQueue_settled [OF m r] show ?thesis
      by (simp add: step.simps run_microtasks_def)
  qed
  have l: "failedQueue (step c (Response_error e)) = []" if "no_refresh_token e c"
    using that c m by (auto simp add: step_logout consistent_def no_refresh_token_def)
  from q s l show ?thesis by blast
qed

theorem queue_invariant_witness:
  "failedQueue queued \<noteq> [] \<and> isRefreshing queued \<and> awaiting queued \<noteq> None \<and>
   microtasks (resumed (granted ''T2'') queued) = [(routines, Resolve (Some (JStr ''T2'')))] \<and>
   failedQueue (step queued (Refresh_settled (granted ''T2''))) = [] \<and>
   no_refresh_token (failure 401 logs) signed_out \<and>
   failedQueue (step signed_out (Response_error (failure 401 logs))) = []"
  using queue_invariant
      [of queued both_tokens
        "[Response_error (failure 401 logs), Response_error (failure 401 routines)]"
        "granted ''T2''" "failure 401 logs"]
    queue_invariant [of signed_out access_only "[]" "granted ''T2''" "failure 401 logs"]
    no_refresh_token_signed_out
  by (simp add: queued_fields settlement_of_def thrown_granted resolved_with_granted)
     (simp add: queued_def signed_out_def)

text \<open>
  C6. However the exchange settles (fulfilled, rejected, or fulfilled with a body that
  makes the \<^verbatim>\<open>try\<close> block throw), \<open>isRefreshing\<close> is false when the block of the handler
  ends, before any reaction runs, and so it is after the branch without a refresh
  token. A later failure that the handler intercepts is therefore not queued, and it
  posts a new exchange if the store holds a refresh token.
\<close>

theorem never_stuck:
  assumes "microtasks c = []"
  shows "(awaiting c \<noteq> None \<longrightarrow>
            \<not> isRefreshing (resumed x c) \<and> \<not> isRefreshing (step c (Refresh_settled x))) \<and>
         (no_refresh_token e c \<longrightarrow> \<not> isRefreshing (step c (Response_error e))) \<and>
         (awaiting c \<noteq> None \<and> intercepts e' \<longrightarrow>
            failedQueue (step (step c (Refresh_settled x)) (Response_error e')) = []) \<and>
         (awaiting c \<noteq> None \<and> intercepts e' \<and>
          localStorage (step c (Refresh_settled x)) ''refreshToken'' = Some t \<and> t \<noteq> [] \<longrightarrow>
            effects (step (step c (Refresh_settled x)) (Response_error e')) =
              effects (step c (Refresh_settled x)) @ [Post_refresh t])"
proof -
  let ?c' = "step c (Refresh_settled x)"
  have l: "\<not> isRefreshing (step c (Response_error e))" if "no_refresh_token e c"
    using that assms by (simp add: step_logout) (simp add: no_refresh_token_def)
  have a: "\<not> isRefreshing (resumed x c) \<and> \<not> isRefreshing ?c' \<and> failedQueue ?c' = [] \<and>
           microtasks ?c' = []"
    if "awaiting c \<noteq> None"
  proof -
    from that obtain r where r: "awaiting c = Some r" by auto
    from microtasks_resumed [OF assms r] failedQueue_settled [OF assms r] show ?thesis
      by (simp add: step.simps run_microtasks_def)
  qed
  have n: "failedQueue (step ?c' (Response_error e')) = []"
    if "awaiting c \<noteq> None" "intercepts e'"
  proof (cases "truthy_item (localStorage ?c' ''refreshToken'')")
    case True
    then obtain u where "localStorage ?c' ''refreshToken'' = Some u" "u \<noteq> []"
      by (rule truthy_item_cases)
    with a [OF that(1)] that(2) show ?thesis
      by (simp add: step_start)
  next
    case False
    with a [OF that(1)] that(2) have "no_refresh_token e' ?c'"
      by (simp add: no_refresh_token_def)
    with a [OF that(1)] show ?thesis
      by (simp add: step_logout)
  qed
  have p: "effects (step ?c' (Response_error e')) = effects ?c' @ [Post_refresh t]"
    if "awaiting c \<noteq> None" "intercepts e'" "localStorage ?c' ''refreshToken'' = Some t" "t \<noteq> []"
    using a [OF that(1)] that(2-4) by (simp add: step_start)
  from l a n p show ?thesis by blast
qed

theorem never_stuck_witness:
  "microtasks queued = [] \<and> awaiting queued \<noteq> None \<and>
   \<not> isRefreshing (step queued (Refresh_settled (Failed refused))) \<and>
   \<not> isRefreshing (step queued (Refresh_settled (Fulfilled None))) \<and>
   intercepts (failure 401 routines) \<and>
   localStorage (step queued (Refresh_settled (granted ''T2''))) ''refreshToken'' = Some ''R1'' \<and>
   effects (step (step queued (Refresh_settled (granted ''T2''))) (Response_error (failure 401 routines))) =
     effects (step queued (Refresh_settled (granted ''T2''))) @ [Post_refresh ''R1''] \<and>
   microtasks signed_out = [] \<and> no_refresh_token (failure 401 logs) signed_out \<and>
   \<not> isRefreshing (step signed_out (Response_error (failure 401 logs)))"
proof -
  have s: "localStorage (step queued (Refresh_settled (granted ''T2''))) ''refreshToken'' = Some ''R1''"
    using step_success [OF queued_fields(3) queued_fields(4) thrown_granted, of "''T2''"]
    by (simp add: queued_fields both_tokens_def)
  from s
    never_stuck [of queued "Failed refused" "failure 401 logs" "failure 401 routines" "''R1''"]
    never_stuck [of queued "Fulfilled None" "failure 401 logs" "failure 401 routines" "''R1''"]
    never_stuck [of queued "granted ''T2''" "failure 401 logs" "failure 401 routines" "''R1''"]
    never_stuck [of signed_out "granted ''T2''" "failure 401 logs" "failure 401 routines" "''R1''"]
    no_refresh_token_signed_out intercepts_routines
  show ?thesis
    by (simp add: queued_fields signed_out_eq initial_def)
qed

text \<open>
  What holds for the failures that carry the configuration of their request: the
  handler intercepts one exactly when the response has status 401, the request is not
  marked \<^verbatim>\<open>_retry\<close> and its url does not end with the refresh endpoint; exactly the others
  (no response, another status, a marked request, the refresh endpoint) are handed
  back to the caller as they came, with nothing else changed. However the exchange
  itself settles, no further exchange is posted.
\<close>

lemma interception_with_config:
  assumes "microtasks c = []"
  shows "(intercepts e \<longleftrightarrow>
            (\<exists>r. response e = Some r \<and> status r = 401) \<and> \<not> retry (config e) \<and>
            \<not> endsWith (url (config e)) ''/api/token/refresh/'') \<and>
         (step c (Response_error e) =
            c\<lparr>effects := effects c @ [Promise_reject (config e) (AxiosError e)]\<rparr>
          \<longleftrightarrow> \<not> intercepts e) \<and>
         exchanges (step c (Refresh_settled x)) = exchanges c"
proof -
  have cond: "intercepts e \<longleftrightarrow>
            (\<exists>r. response e = Some r \<and> status r = 401) \<and> \<not> retry (config e) \<and>
            \<not> endsWith (url (config e)) ''/api/token/refresh/''"
    by (cases "response e") (auto simp add: intercepts_def REFRESH_TOKEN_ENDPOINT_def)
  let ?p = "c\<lparr>effects := effects c @ [Promise_reject (config e) (AxiosError e)]\<rparr>"
  have pass: "step c (Response_error e) = ?p" if "\<not> intercepts e"
    using that assms by (simp add: step_pass propagated_def)
  have other: "step c (Response_error e) \<noteq> ?p" if i: "intercepts e"
  proof (cases "isRefreshing c")
    case True
    with i assms have "failedQueue (step c (Response_error e)) = failedQueue c @ [config e]"
      by (simp add: step_queue)
    then show ?thesis by auto
  next
    case False
    show ?thesis
    proof (cases "truthy_item (localStorage c ''refreshToken'')")
      case True
      then obtain t where "localStorage c ''refreshToken'' = Some t" "t \<noteq> []"
        by (rule truthy_item_cases)
      with i False assms have "isRefreshing (step c (Response_error e))"
        by (simp add: step_start)
      with False show ?thesis by auto
    next
      case t: False
      with i False have "no_refresh_token e c"
        by (simp add: no_refresh_token_def)
      with assms have "length (effects (step c (Response_error e))) = length (effects c) + 2"
        by (simp add: step_logout)
      then show ?thesis by auto
    qed
  qed
  from cond pass other exchanges_settled show ?thesis
    by blast
qed

text \<open>
  C7. A failure that carries no configuration is not handed back as it came. Here the
  request is rejected, before it is sent, by the \<^verbatim>\<open>TypeError\<close> of data that cannot be
  rendered as JSON. The handler reads \<^verbatim>\<open>error.config.url\<close> in line 56, throws there, and
  the caller receives the handler's \<^verbatim>\<open>TypeError\<close> in place of the failure; nothing else
  changes and no exchange is posted.
\<close>

theorem failure_without_config_replaced:
  "error_config unserialisable = None \<and>
   step (initial both_tokens) (Rejection unserialisable) =
     (initial both_tokens)
       \<lparr>effects := [Handler_throws (TypeError (cannot_read ''undefined'' ''url''))]\<rparr> \<and>
   TypeError (cannot_read ''undefined'' ''url'') \<noteq> unserialisable \<and>
   cannot_read ''undefined'' ''url'' = ''Cannot read properties of undefined (reading 'url')''"
proof -
  have n: "error_config unserialisable = None"
    by (simp add: unserialisable_def)
  have m: "microtasks (initial both_tokens) = []" "effects (initial both_tokens) = []"
    by (simp_all add: initial_def)
  from step_without_config [OF m(1) n] m(2) n show ?thesis
    by (simp add: unserialisable_def cannot_read_def)
qed

text \<open>
  C10. In every state reached from the initial one, when the handler takes the branch
  without a refresh token, the queue is empty, and it is empty afterwards; the branch
  runs within one block, after which \<open>isRefreshing\<close> is false and no handler is
  suspended.
\<close>

theorem no_refresh_token_queue_empty:
  assumes "c = run (initial store) evs" and "no_refresh_token e c"
  shows "failedQueue c = [] \<and> microtasks c = [] \<and>
         failedQueue (step c (Response_error e)) = [] \<and>
         \<not> isRefreshing (step c (Response_error e)) \<and>
         awaiting (step c (Response_error e)) = None"
proof -
  from assms(1) have c: "consistent c"
    by (simp add: consistent_reachable)
  with assms(2) show ?thesis
    by (auto simp add: step_logout consistent_def no_refresh_token_def)
qed

theorem no_refresh_token_queue_empty_witness:
  "no_refresh_token (failure 401 logs) signed_out \<and> failedQueue signed_out = [] \<and>
   failedQueue (step signed_out (Response_error (failure 401 logs))) = [] \<and>
   \<not> isRefreshing (step signed_out (Response_error (failure 401 logs)))"
  using no_refresh_token_queue_empty [of signed_out access_only "[]" "failure 401 logs"]
    no_refresh_token_signed_out
  by (simp add: signed_out_def)

section \<open>The request interceptor and the API functions\<close>

text \<open>
  C9, amended. The request interceptor returns the reference it was given, not a copy,
  and tests the stored access token for truthiness. With a non-empty token in the
  store it writes the header \<^verbatim>\<open>Authorization: Bearer <token>\<close> into the configuration
  object it was given, in place; that write is its one effect. With no token, or with
  the empty string stored, it leaves the heap as it is. It cannot fail; it touches no
  other object, and in the object it was given it leaves the url, the \<^verbatim>\<open>_retry\<close> mark,
  the rest of the configuration and every other header as they are.
\<close>

theorem request_interceptor_contract:
  "fst (request_interceptor store cfg h) = cfg \<and>
   (store ''accessToken'' = Some token \<and> token \<noteq> [] \<longrightarrow>
      snd (request_interceptor store cfg h) =
        h(cfg := (h cfg)\<lparr>headers := (headers (h cfg))(''Authorization'' \<mapsto> ''Bearer '' @ token)\<rparr>)) \<and>
   (\<not> truthy_item (store ''accessToken'') \<longrightarrow> snd (request_interceptor store cfg h) = h) \<and>
   (\<forall>other. other \<noteq> cfg \<longrightarrow> snd (request_interceptor store cfg h) other = h other) \<and>
   url (snd (request_interceptor store cfg h) cfg) = url (h cfg) \<and>
   retry (snd (request_interceptor store cfg h) cfg) = retry (h cfg) \<and>
   payload (snd (request_interceptor store cfg h) cfg) = payload (h cfg) \<and>
   (\<forall>k. k \<noteq> ''Authorization'' \<longrightarrow>
      headers (snd (request_interceptor store cfg h) cfg) k = headers (h cfg) k)"
proof (cases "store ''accessToken''")
  case None
  then show ?thesis
    by (simp add: request_interceptor_def)
next
  case (Some t)
  show ?thesis
  proof (cases "t = []")
    case True
    with Some show ?thesis
      by (auto simp add: request_interceptor_def)
  next
    case False
    with Some show ?thesis
      by (auto simp add: request_interceptor_def)
  qed
qed

theorem request_interceptor_contract_witness:
  "both_tokens ''accessToken'' = Some ''T1'' \<and> ''T1'' \<noteq> [] \<and>
   fst (request_interceptor both_tokens 0 (holding logs)) = 0 \<and>
   headers (snd (request_interceptor both_tokens 0 (holding logs)) 0) ''Authorization'' =
     Some ''Bearer T1'' \<and>
   (1::nat) \<noteq> 0 \<and>
   snd (request_interceptor both_tokens 0 (holding logs)) 1 = logs \<and>
   \<not> truthy_item (Map.empty ''accessToken'') \<and>
   snd (request_interceptor Map.empty 0 (holding logs)) = holding logs \<and>
   ''Content-Type'' \<noteq> ''Authorization'' \<and>
   headers (snd (request_interceptor both_tokens 0 (holding logs)) 0) ''Content-Type'' = None"
  using request_interceptor_contract [of both_tokens 0 "holding logs" "''T1''"]
    request_interceptor_contract [of Map.empty 0 "holding logs" "''T1''"]
  by (simp add: both_tokens_def logs_def request_to_def holding_def)

text \<open>
  C9 as stated fails twice. With a token stored, the reference returned is the one
  given and the object it was given has changed: the header is written in place, the
  result is no copy and the call is not free of side effects. And when the store holds
  the empty string as access token, a token is present and no header is set.
\<close>

theorem mutates_argument_counterexample:
  "fst (request_interceptor both_tokens 0 (holding logs)) = 0 \<and>
   headers (holding logs 0) ''Authorization'' = None \<and>
   headers (snd (request_interceptor both_tokens 0 (holding logs)) 0) ''Authorization'' =
     Some ''Bearer T1'' \<and>
   snd (request_interceptor both_tokens 0 (holding logs)) 0 \<noteq> holding logs 0 \<and>
   empty_token ''accessToken'' = Some [] \<and>
   headers (snd (request_interceptor empty_token 0 (holding logs)) 0) ''Authorization'' = None"
proof -
  have a: "headers (snd (request_interceptor both_tokens 0 (holding logs)) 0) ''Authorization'' =
     Some ''Bearer T1''"
    by (simp add: request_interceptor_def both_tokens_def holding_def)
  have b: "headers (holding logs 0) ''Authorization'' = None"
    by (simp add: holding_def logs_def request_to_def)
  from a b have "snd (request_interceptor both_tokens 0 (holding logs)) 0 \<noteq> holding logs 0"
    by auto
  with a b show ?thesis
    by (simp add: request_interceptor_def both_tokens_def empty_token_def)
qed

text \<open>
  C8, amended. \<open>logSession\<close> and \<open>getLoggedSessions\<close> throw an error with \<open>message\<close>,
  \<open>data\<close> and \<open>status\<close>. With a response, the message is the body's \<open>detail\<close> when that is
  truthy; otherwise \<open>logSession\<close> takes the JSON rendering of a body that is an object or
  an array, where \<open>getLoggedSessions\<close> takes the body's \<open>message\<close> when truthy; otherwise
  both take \<^verbatim>\<open>API Error: <status>\<close>; \<open>data\<close> and \<open>status\<close> are those of the response.
  Without a response the message is the network one if the request was made and the
  set-up one if not. \<open>loginUser\<close>, \<open>getAssignedRoutines\<close> and \<open>getRoutineDetails\<close> hand the
  rejection of the client back as it is.
\<close>

theorem error_normalization:
  "(error_response error = Some r \<and> truthy (get_prop (data r) ''detail'') \<longrightarrow>
      logSession (Inl error) =
        Inl (Error (String_js (get_prop (data r) ''detail'')) (data r) (Some (status r))) \<and>
      getLoggedSessions (Inl error) =
        Inl (Error (String_js (get_prop (data r) ''detail'')) (data r) (Some (status r)))) \<and>
   (error_response error = Some r \<and> \<not> truthy (get_prop (data r) ''detail'') \<and>
    (data r = Some (JObj kvs) \<or> data r = Some (JArr xs)) \<longrightarrow>
      logSession (Inl error) =
        Inl (Error (JSON_stringify (the (data r))) (data r) (Some (status r)))) \<and>
   (error_response error = Some r \<and> \<not> truthy (get_prop (data r) ''detail'') \<and>
    \<not> (truthy (data r) \<and> typeof_object (data r)) \<longrightarrow>
      logSession (Inl error) =
        Inl (Error (''API Error: '' @ show_nat (status r)) (data r) (Some (status r)))) \<and>
   (error_response error = Some r \<and> \<not> truthy (get_prop (data r) ''detail'') \<and>
    truthy (get_prop (data r) ''message'') \<longrightarrow>
      getLoggedSessions (Inl error) =
        Inl (Error (String_js (get_prop (data r) ''message'')) (data r) (Some (status r)))) \<and>
   (error_response error = Some r \<and> \<not> truthy (get_prop (data r) ''detail'') \<and>
    \<not> truthy (get_prop (data r) ''message'') \<longrightarrow>
      getLoggedSessions (Inl error) =
        Inl (Error (''API Error: '' @ show_nat (status r)) (data r) (Some (status r)))) \<and>
   (error_response error = None \<and> error_request error \<longrightarrow>
      logSession (Inl error) =
        Inl (Error ''Network Error: Could not connect to server.'' None None) \<and>
      getLoggedSessions (Inl error) =
        Inl (Error ''Network Error: Could not connect to server.'' None None)) \<and>
   (error_response error = None \<and> \<not> error_request error \<longrightarrow>
      logSession (Inl error) = Inl (Error ''Request setup error.'' None None) \<and>
      getLoggedSessions (Inl error) = Inl (Error ''Request setup error.'' None None)) \<and>
   loginUser (Inl error) = Inl error \<and>
   getAssignedRoutines (Inl error) = Inl error \<and>
   getRoutineDetails (Inl error) = Inl error"
proof -
  have detail: "error_response error = Some r \<Longrightarrow> truthy (get_prop (data r) ''detail'') \<Longrightarrow>
      logSession (Inl error) =
        Inl (Error (String_js (get_prop (data r) ''detail'')) (data r) (Some (status r))) \<and>
      getLoggedSessions (Inl error) =
        Inl (Error (String_js (get_prop (data r) ''detail'')) (data r) (Some (status r)))"
    by (simp add: logSession_def getLoggedSessions_def js_or_def)
  have rendering: "error_response error = Some r \<Longrightarrow> \<not> truthy (get_prop (data r) ''detail'') \<Longrightarrow>
      data r = Some (JObj kvs) \<or> data r = Some (JArr xs) \<Longrightarrow>
      logSession (Inl error) =
        Inl (Error (JSON_stringify (the (data r))) (data r) (Some (status r)))"
    by (auto simp add: logSession_def js_or_def)
  have generic: "error_response error = Some r \<Longrightarrow> \<not> truthy (get_prop (data r) ''detail'') \<Longrightarrow>
      \<not> (truthy (data r) \<and> typeof_object (data r)) \<Longrightarrow>
      logSession (Inl error) =
        Inl (Error (''API Error: '' @ show_nat (status r)) (data r) (Some (status r)))"
    by (auto simp add: logSession_def js_or_def api_error_text_def)
  have msg: "error_response error = Some r \<Longrightarrow> \<not> truthy (get_prop (data r) ''detail'') \<Longrightarrow>
      truthy (get_prop (data r) ''message'') \<Longrightarrow>
      getLoggedSessions (Inl error) =
        Inl (Error (String_js (get_prop (data r) ''message'')) (data r) (Some (status r)))"
    by (simp add: getLoggedSessions_def js_or_def)
  have generic': "error_response error = Some r \<Longrightarrow> \<not> truthy (get_prop (data r) ''detail'') \<Longrightarrow>
      \<not> truthy (get_prop (data r) ''message'') \<Longrightarrow>
      getLoggedSessions (Inl error) =
        Inl (Error (''API Error: '' @ show_nat (status r)) (data r) (Some (status r)))"
    by (simp add: getLoggedSessions_def js_or_def api_error_text_def)
  have none: "error_response error = None \<Longrightarrow>
      logSession (Inl error) =
        Inl (Error (if error_request error then ''Network Error: Could not connect to server.''
                    else ''Request setup error.'') None None) \<and>
      getLoggedSessions (Inl error) =
        Inl (Error (if error_request error then ''Network Error: Could not connect to server.''
                    else ''Request setup error.'') None None)"
    by (simp add: logSession_def getLoggedSessions_def)
  have raw: "loginUser (Inl error) = Inl error \<and> getAssignedRoutines (Inl error) = Inl error \<and>
      getRoutineDetails (Inl error) = Inl error"
    by (simp add: loginUser_def getAssignedRoutines_def getRoutineDetails_def)
  from detail rendering generic msg generic' none raw show ?thesis
    by (intro conjI impI) (simp_all)
qed

theorem error_normalization_witness:
  "error_response bad_request = Some \<lparr>status = 400, data = Some (JObj [(''error'', JStr ''bad'')])\<rparr> \<and>
   \<not> truthy (get_prop (Some (JObj [(''error'', JStr ''bad'')])) ''detail'') \<and>
   \<not> truthy (get_prop (Some (JObj [(''error'', JStr ''bad'')])) ''message'') \<and>
   logSession (Inl bad_request) =
     Inl (Error (JSON_stringify (JObj [(''error'', JStr ''bad'')]))
       (Some (JObj [(''error'', JStr ''bad'')])) (Some 400)) \<and>
   getLoggedSessions (Inl bad_request) =
     Inl (Error (''API Error: '' @ show_nat 400) (Some (JObj [(''error'', JStr ''bad'')])) (Some 400)) \<and>
   error_response unserialisable = None \<and> \<not> error_request unserialisable \<and>
   logSession (Inl unserialisable) = Inl (Error ''Request setup error.'' None None)"
  using error_normalization
      [of bad_request "\<lparr>status = 400, data = Some (JObj [(''error'', JStr ''bad'')])\<rparr>"
        "[(''error'', JStr ''bad'')]" "[]"]
    error_normalization [of unserialisable "\<lparr>status = 400, data = None\<rparr>" "[]" "[]"]
  by (simp add: bad_request_def unserialisable_def)

text \<open>
  C8 as stated fails: on the same failure, a 400 response whose body is
  \<^verbatim>\<open>{"error":"bad"}\<close>, \<open>getLoggedSessions\<close> reports \<^verbatim>\<open>API Error: 400\<close> where \<open>logSession\<close>
  reports the JSON rendering of the body, and \<open>loginUser\<close> hands back the error of the
  client, not a normalized one.
\<close>

theorem normalization_not_uniform_counterexample:
  "getLoggedSessions (Inl bad_request) =
     Inl (Error ''API Error: 400'' (Some (JObj [(''error'', JStr ''bad'')])) (Some 400)) \<and>
   logSession (Inl bad_request) =
     Inl (Error (JSON_stringify (JObj [(''error'', JStr ''bad'')]))
       (Some (JObj [(''error'', JStr ''bad'')])) (Some 400)) \<and>
   JSON_stringify (JObj [(''error'', JStr ''bad'')]) = ''{\"error\":\"bad\"}'' \<and>
   loginUser (Inl bad_request) = Inl bad_request"
  by (simp add: bad_request_def getLoggedSessions_def logSession_def loginUser_def js_or_def
        api_error_text_def quote_def escape_char_def)
     code_simp

end
